theory Spec2Isabelle
  imports Main "HOL-Library.Sublist" "HOL-Library.Word"
begin

section \<open>Python text\<close>

text \<open>
  A Python \<open>str\<close> is a sequence of Unicode code points. It is modelled as the list of
  the code points' numbers, so that \<open>length\<close> counts what Python's \<open>len\<close> counts.
  ASCII literals of the source are written with \<open>str_of\<close>.
\<close>

type_synonym codepoint = nat
type_synonym pystr = "codepoint list"

definition str_of :: "string \<Rightarrow> pystr" where
  "str_of s = map of_char s"

text \<open>
  \<open>str.replace(old, new)\<close>: the occurrences of \<open>old\<close> are found from left to right
  and do not overlap; each is replaced by \<open>new\<close>. For the empty \<open>old\<close> Python puts
  \<open>new\<close> before every character and at the end.
\<close>

function replace :: "'a list \<Rightarrow> 'a list \<Rightarrow> 'a list \<Rightarrow> 'a list" where
  "replace old new [] = (if old = [] then new else [])"
| "replace old new (c # cs) =
     (if old = [] then new @ c # replace old new cs
      else if prefix old (c # cs) then new @ replace old new (drop (length old) (c # cs))
      else c # replace old new cs)"
  by pat_completeness auto
termination
  by (relation "measure (\<lambda>(old, new, s). length s)") auto

text \<open>
  \<open>str.strip()\<close> without argument removes the leading and trailing characters for
  which \<open>str.isspace\<close> holds. These are the code points CPython lists as whitespace.
\<close>

definition is_space :: "codepoint \<Rightarrow> bool" where
  "is_space c \<longleftrightarrow>
     (9 \<le> c \<and> c \<le> 13) \<or> (28 \<le> c \<and> c \<le> 32) \<or> c = 133 \<or> c = 160 \<or> c = 5760 \<or>
     (8192 \<le> c \<and> c \<le> 8202) \<or> c = 8232 \<or> c = 8233 \<or> c = 8239 \<or> c = 8287 \<or>
     c = 12288"

definition strip :: "pystr \<Rightarrow> pystr" where
  "strip s = rev (dropWhile is_space (rev (dropWhile is_space s)))"

subsection \<open>The cleaning step of \<open>analysiere_whiteboard\<close>\<close>

definition fence_json :: pystr where
  "fence_json = str_of ''```json''"

definition fence :: pystr where
  "fence = str_of ''```''"

text \<open>
  \<open>bereinigt = rohtext.replace("```json", "").replace("```", "").strip()\<close>
\<close>

definition bereinigt :: "pystr \<Rightarrow> pystr" where
  "bereinigt rohtext = strip (replace fence [] (replace fence_json [] rohtext))"

section \<open>Python values and the JSON encoder\<close>

text \<open>
  The values \<open>json.dump\<close> accepts and \<open>json.loads\<close> returns. A dictionary keeps its
  items in insertion order. Floating-point numbers are outside this development: the type
  \<open>'f\<close> stands for Python's \<open>float\<close>, and the two functions of the language that touch it
  (\<open>float.__repr__\<close> in the encoder, \<open>float(...)\<close> in the decoder) are parameters.
\<close>

datatype 'f pykey = KStr pystr | KInt int | KFloat 'f | KBool bool | KNone

datatype 'f pyval =
    PNone
  | PBool bool
  | PInt int
  | PFloat 'f
  | PStr pystr
  | PList "'f pyval list"
  | PTuple "'f pyval list"
  | PDict "('f pykey \<times> 'f pyval) list"

subsection \<open>Numbers as text\<close>

function digits_of :: "nat \<Rightarrow> pystr" where
  "digits_of n = (if n < 10 then [48 + n] else digits_of (n div 10) @ [48 + n mod 10])"
  by pat_completeness auto
termination
  by (relation "measure (\<lambda>n. n)") auto

declare digits_of.simps [simp del]

text \<open>\<open>int.__repr__\<close>\<close>

definition intstr :: "int \<Rightarrow> pystr" where
  "intstr i = (if i < 0 then 45 # digits_of (nat (- i)) else digits_of (nat i))"

definition hexdigit :: "nat \<Rightarrow> codepoint" where
  "hexdigit d = (if d < 10 then 48 + d else 87 + d)"

text \<open>\<open>'{0:04x}'.format(n)\<close>, used for \<open>n < 0x10000\<close> only\<close>

definition hex4 :: "nat \<Rightarrow> pystr" where
  "hex4 n = [hexdigit (n div 4096 mod 16), hexdigit (n div 256 mod 16),
             hexdigit (n div 16 mod 16), hexdigit (n mod 16)]"

subsection \<open>String literals\<close>

text \<open>
  \<open>py_encode_basestring\<close> (used with \<open>ensure_ascii=False\<close>) escapes the quote, the
  backslash and the control characters below U+0020; \<open>py_encode_basestring_ascii\<close>
  (\<open>ensure_ascii=True\<close>) escapes in addition everything outside \<open>' '..'~'\<close>, code
  points beyond U+FFFF as a surrogate pair.
\<close>

definition escape_dct :: "codepoint \<Rightarrow> pystr option" where
  "escape_dct c =
     (if c = 92 then Some [92, 92]
      else if c = 34 then Some [92, 34]
      else if c = 8 then Some [92, 98]
      else if c = 12 then Some [92, 102]
      else if c = 10 then Some [92, 110]
      else if c = 13 then Some [92, 114]
      else if c = 9 then Some [92, 116]
      else None)"

definition escape_char :: "bool \<Rightarrow> codepoint \<Rightarrow> pystr" where
  "escape_char ensure_ascii c =
     (case escape_dct c of
        Some e \<Rightarrow> e
      | None \<Rightarrow>
          if c < 32 then 92 # 117 # hex4 c
          else if \<not> ensure_ascii \<or> c \<le> 126 then [c]
          else if c < 65536 then 92 # 117 # hex4 c
          else 92 # 117 # hex4 (55296 + (c - 65536) div 1024 mod 1024) @
               92 # 117 # hex4 (56320 + (c - 65536) mod 1024))"

definition encode_basestring :: "bool \<Rightarrow> pystr \<Rightarrow> pystr" where
  "encode_basestring ensure_ascii s = 34 # concat (map (escape_char ensure_ascii) s) @ [34]"

subsection \<open>The chunks of \<open>JSONEncoder(indent=4).iterencode\<close>\<close>

text \<open>
  With \<open>indent=4\<close> the item separator is \<open>','\<close> and the key separator \<open>': '\<close>. The
  encoder yields the text in chunks; \<open>json.dump\<close> writes them one by one and \<open>json.dumps\<close>
  joins them.
\<close>

definition newline_indent :: "nat \<Rightarrow> pystr" where
  "newline_indent level = 10 # replicate (4 * level) 32"

text \<open>The values encoded without recursion: \<open>None\<close> for a list, tuple or dictionary.\<close>

fun atom_text :: "bool \<Rightarrow> ('f \<Rightarrow> pystr) \<Rightarrow> 'f pyval \<Rightarrow> pystr option" where
  "atom_text ea fl (PStr s) = Some (encode_basestring ea s)"
| "atom_text ea fl PNone = Some (str_of ''null'')"
| "atom_text ea fl (PBool True) = Some (str_of ''true'')"
| "atom_text ea fl (PBool False) = Some (str_of ''false'')"
| "atom_text ea fl (PInt i) = Some (intstr i)"
| "atom_text ea fl (PFloat x) = Some (fl x)"
| "atom_text ea fl _ = None"

fun key_text :: "('f \<Rightarrow> pystr) \<Rightarrow> 'f pykey \<Rightarrow> pystr" where
  "key_text fl (KStr s) = s"
| "key_text fl (KFloat x) = fl x"
| "key_text fl (KBool True) = str_of ''true''"
| "key_text fl (KBool False) = str_of ''false''"
| "key_text fl KNone = str_of ''null''"
| "key_text fl (KInt i) = intstr i"

fun iterencode :: "bool \<Rightarrow> ('f \<Rightarrow> pystr) \<Rightarrow> nat \<Rightarrow> 'f pyval \<Rightarrow> pystr list"
  and iterencode_items :: "bool \<Rightarrow> ('f \<Rightarrow> pystr) \<Rightarrow> nat \<Rightarrow> pystr \<Rightarrow> 'f pyval list \<Rightarrow> pystr list"
  and iterencode_list :: "bool \<Rightarrow> ('f \<Rightarrow> pystr) \<Rightarrow> nat \<Rightarrow> 'f pyval list \<Rightarrow> pystr list"
  and iterencode_pairs ::
    "bool \<Rightarrow> ('f \<Rightarrow> pystr) \<Rightarrow> nat \<Rightarrow> bool \<Rightarrow> ('f pykey \<times> 'f pyval) list \<Rightarrow> pystr list"
where
  "iterencode ea fl level (PList vs) = iterencode_list ea fl level vs"
| "iterencode ea fl level (PTuple vs) = iterencode_list ea fl level vs"
| "iterencode ea fl level (PDict kvs) =
     (if kvs = [] then [str_of ''{}'']
      else [[123], newline_indent (Suc level)] @
           iterencode_pairs ea fl (Suc level) True kvs @
           [newline_indent level, [125]])"
| "iterencode ea fl level PNone = [str_of ''null'']"
| "iterencode ea fl level (PBool b) = [if b then str_of ''true'' else str_of ''false'']"
| "iterencode ea fl level (PInt i) = [intstr i]"
| "iterencode ea fl level (PFloat x) = [fl x]"
| "iterencode ea fl level (PStr s) = [encode_basestring ea s]"
| "iterencode_list ea fl level vs =
     (if vs = [] then [str_of ''[]'']
      else iterencode_items ea fl (Suc level) (91 # newline_indent (Suc level)) vs @
           [newline_indent level, [93]])"
| "iterencode_items ea fl level buf [] = []"
| "iterencode_items ea fl level buf (v # vs) =
     (case atom_text ea fl v of
        Some t \<Rightarrow> [buf @ t]
      | None \<Rightarrow> buf # iterencode ea fl level v) @
     iterencode_items ea fl level (44 # newline_indent level) vs"
| "iterencode_pairs ea fl level first [] = []"
| "iterencode_pairs ea fl level first ((k, v) # kvs) =
     (if first then [] else [44 # newline_indent level]) @
     [encode_basestring ea (key_text fl k), str_of '': ''] @
     iterencode ea fl level v @
     iterencode_pairs ea fl level False kvs"

text \<open>\<open>json.dumps(obj, indent=4, ensure_ascii=ea)\<close>\<close>

definition json_dumps :: "bool \<Rightarrow> ('f \<Rightarrow> pystr) \<Rightarrow> 'f pyval \<Rightarrow> pystr" where
  "json_dumps ea fl obj = concat (iterencode ea fl 0 obj)"

section \<open>Errors\<close>

text \<open>
  The exceptions the program can raise. An exception is a value: a fallible operation
  returns \<open>Inl e\<close> where the Python raises \<open>e\<close>.
\<close>

datatype py_error =
    JSONDecodeError
  | RecursionError
  | FileNotFoundError
  | IsADirectoryError
  | FileExistsError
  | TypeError
  | UnicodeEncodeError
  | UnicodeDecodeError
  | IndexError
  | AttributeError
  | APIError

section \<open>The JSON decoder\<close>

text \<open>
  \<open>json.loads\<close> with its default arguments, as the scanner of the \<open>json\<close> module works:
  a function from the text at the current position to the value read and the text that
  follows it.
\<close>

definition is_json_ws :: "codepoint \<Rightarrow> bool" where
  "is_json_ws c \<longleftrightarrow> c = 32 \<or> c = 9 \<or> c = 10 \<or> c = 13"

definition skip_ws :: "pystr \<Rightarrow> pystr" where
  "skip_ws s = dropWhile is_json_ws s"

definition is_digit :: "codepoint \<Rightarrow> bool" where
  "is_digit c \<longleftrightarrow> 48 \<le> c \<and> c \<le> 57"

definition nat_of_digits :: "pystr \<Rightarrow> nat" where
  "nat_of_digits ds = foldl (\<lambda>a c. 10 * a + (c - 48)) 0 ds"

definition hexval :: "codepoint \<Rightarrow> nat option" where
  "hexval c =
     (if 48 \<le> c \<and> c \<le> 57 then Some (c - 48)
      else if 97 \<le> c \<and> c \<le> 102 then Some (c - 87)
      else if 65 \<le> c \<and> c \<le> 70 then Some (c - 55)
      else None)"

fun parse_hex4 :: "pystr \<Rightarrow> nat option" where
  "parse_hex4 (a # b # c # d # rest) =
     (case (hexval a, hexval b, hexval c, hexval d) of
        (Some x, Some y, Some z, Some w) \<Rightarrow> Some (4096 * x + 256 * y + 16 * z + w)
      | _ \<Rightarrow> None)"
| "parse_hex4 _ = None"

text \<open>The escape \<open>\uXXXX\<close> of a low surrogate at the head of the text, if there is one.\<close>

fun low_surrogate_escape :: "pystr \<Rightarrow> nat option" where
  "low_surrogate_escape (b # u # rest) =
     (if b = 92 \<and> u = 117 then
        (case parse_hex4 rest of
           Some c2 \<Rightarrow> if 56320 \<le> c2 \<and> c2 \<le> 57343 then Some c2 else None
         | None \<Rightarrow> None)
      else None)"
| "low_surrogate_escape _ = None"

definition unescape :: "codepoint \<Rightarrow> codepoint option" where
  "unescape e =
     (if e = 34 \<or> e = 92 \<or> e = 47 then Some e
      else if e = 98 then Some 8
      else if e = 102 then Some 12
      else if e = 110 then Some 10
      else if e = 114 then Some 13
      else if e = 116 then Some 9
      else None)"

definition cons_result :: "codepoint \<Rightarrow> py_error + pystr \<times> pystr \<Rightarrow> py_error + pystr \<times> pystr" where
  "cons_result c r = (case r of Inl e \<Rightarrow> Inl e | Inr (s, rest) \<Rightarrow> Inr (c # s, rest))"

text \<open>
  \<open>scanstring\<close> in strict mode, started behind the opening quote: the characters up to
  the closing quote, with the escapes resolved, and the text behind the closing quote.
\<close>

fun scanstring :: "pystr \<Rightarrow> py_error + pystr \<times> pystr" where
  "scanstring [] = Inl JSONDecodeError"
| "scanstring (c # cs) =
     (if c = 34 then Inr ([], cs)
      else if c = 92 then
        (case cs of
           [] \<Rightarrow> Inl JSONDecodeError
         | e # r \<Rightarrow>
             if e = 117 then
               (case parse_hex4 r of
                  None \<Rightarrow> Inl JSONDecodeError
                | Some u \<Rightarrow>
                    (case low_surrogate_escape (drop 4 r) of
                       Some u2 \<Rightarrow>
                         if 55296 \<le> u \<and> u \<le> 56319
                         then cons_result (65536 + ((u mod 1024) * 1024 + u2 mod 1024))
                                (scanstring (drop 10 r))
                         else cons_result u (scanstring (drop 4 r))
                     | None \<Rightarrow> cons_result u (scanstring (drop 4 r))))
             else
               (case unescape e of
                  None \<Rightarrow> Inl JSONDecodeError
                | Some x \<Rightarrow> cons_result x (scanstring r)))
      else if c < 32 then Inl JSONDecodeError
      else cons_result c (scanstring cs))"

text \<open>
  \<open>_match_number\<close>: an optional minus sign, an integer part without leading zero, a
  fraction if a digit follows the point, an exponent if a digit follows its sign. Without
  fraction and exponent the number is an \<open>int\<close>, else the \<open>float\<close> of the text matched.
\<close>

definition num_sign :: "pystr \<Rightarrow> pystr" where
  "num_sign s = (case s of c # r \<Rightarrow> if c = 45 then [45] else [] | [] \<Rightarrow> [])"

definition num_int_part :: "pystr \<Rightarrow> pystr" where
  "num_int_part s =
     (case s of
        c # r \<Rightarrow> if c = 48 then [48]
                 else if 49 \<le> c \<and> c \<le> 57 then takeWhile is_digit s
                 else []
      | [] \<Rightarrow> [])"

definition num_frac_part :: "pystr \<Rightarrow> pystr" where
  "num_frac_part s =
     (case s of
        c # d # r \<Rightarrow> if c = 46 \<and> is_digit d then 46 # takeWhile is_digit (d # r) else []
      | _ \<Rightarrow> [])"

definition num_exp_part :: "pystr \<Rightarrow> pystr" where
  "num_exp_part s =
     (case s of
        c # r \<Rightarrow>
          if c = 101 \<or> c = 69 then
            (let sg = (case r of x # _ \<Rightarrow> if x = 45 \<or> x = 43 then [x] else [] | [] \<Rightarrow> []);
                 ds = takeWhile is_digit (drop (length sg) r)
             in if ds = [] then [] else c # sg @ ds)
          else []
      | [] \<Rightarrow> [])"

definition match_number :: "(pystr \<Rightarrow> 'f) \<Rightarrow> pystr \<Rightarrow> py_error + 'f pyval \<times> pystr" where
  "match_number pf s =
     (let sign = num_sign s;
          s1 = drop (length sign) s;
          ip = num_int_part s1
      in if ip = [] then Inl JSONDecodeError
         else
           (let s2 = drop (length ip) s1;
                fp = num_frac_part s2;
                s3 = drop (length fp) s2;
                ep = num_exp_part s3;
                s4 = drop (length ep) s3
            in if fp = [] \<and> ep = []
               then Inr (PInt (if sign = [] then int (nat_of_digits ip)
                               else - int (nat_of_digits ip)), s4)
               else Inr (PFloat (pf (sign @ ip @ fp @ ep)), s4)))"

text \<open>
  \<open>PyDict_SetItem\<close>: a key already present keeps its place and gets the new value.
\<close>

fun dict_setitem :: "('k \<times> 'v) list \<Rightarrow> 'k \<Rightarrow> 'v \<Rightarrow> ('k \<times> 'v) list" where
  "dict_setitem [] k v = [(k, v)]"
| "dict_setitem ((k', v') # kvs) k v =
     (if k' = k then (k, v) # kvs else (k', v') # dict_setitem kvs k v)"

text \<open>
  \<open>scan_once\<close> with the loops of \<open>_parse_array\<close> and \<open>_parse_object\<close>. The first
  argument bounds the number of nested calls and loop rounds still allowed; running out
  of it is the \<open>RecursionError\<close> of the interpreter. \<open>json_loads\<close> starts with more
  than twice the length of the text, which is never used up; the interpreter's own, smaller
  limit on the nesting depth is not modelled.
\<close>

fun scan_once :: "nat \<Rightarrow> (pystr \<Rightarrow> 'f) \<Rightarrow> pystr \<Rightarrow> py_error + 'f pyval \<times> pystr"
  and parse_array :: "nat \<Rightarrow> (pystr \<Rightarrow> 'f) \<Rightarrow> 'f pyval list \<Rightarrow> pystr \<Rightarrow> py_error + 'f pyval \<times> pystr"
  and parse_object ::
    "nat \<Rightarrow> (pystr \<Rightarrow> 'f) \<Rightarrow> ('f pykey \<times> 'f pyval) list \<Rightarrow> pystr \<Rightarrow> py_error + 'f pyval \<times> pystr"
where
  "scan_once 0 pf s = Inl RecursionError"
| "scan_once (Suc n) pf [] = Inl JSONDecodeError"
| "scan_once (Suc n) pf (c # cs) =
     (if c = 34 then
        (case scanstring cs of Inl e \<Rightarrow> Inl e | Inr (t, rest) \<Rightarrow> Inr (PStr t, rest))
      else if c = 123 then
        (case skip_ws cs of
           [] \<Rightarrow> Inl JSONDecodeError
         | d # r \<Rightarrow> if d = 125 then Inr (PDict [], r) else parse_object n pf [] (d # r))
      else if c = 91 then
        (case skip_ws cs of
           [] \<Rightarrow> Inl JSONDecodeError
         | d # r \<Rightarrow> if d = 93 then Inr (PList [], r) else parse_array n pf [] (d # r))
      else if c = 110 \<and> prefix (str_of ''null'') (c # cs) then Inr (PNone, drop 4 (c # cs))
      else if c = 116 \<and> prefix (str_of ''true'') (c # cs) then Inr (PBool True, drop 4 (c # cs))
      else if c = 102 \<and> prefix (str_of ''false'') (c # cs) then Inr (PBool False, drop 5 (c # cs))
      else if c = 78 \<and> prefix (str_of ''NaN'') (c # cs)
        then Inr (PFloat (pf (str_of ''NaN'')), drop 3 (c # cs))
      else if c = 73 \<and> prefix (str_of ''Infinity'') (c # cs)
        then Inr (PFloat (pf (str_of ''Infinity'')), drop 8 (c # cs))
      else if c = 45 \<and> prefix (str_of ''-Infinity'') (c # cs)
        then Inr (PFloat (pf (str_of ''-Infinity'')), drop 9 (c # cs))
      else match_number pf (c # cs))"
| "parse_array 0 pf acc s = Inl RecursionError"
| "parse_array (Suc n) pf acc s =
     (case scan_once n pf s of
        Inl e \<Rightarrow> Inl e
      | Inr (v, rest) \<Rightarrow>
          (case skip_ws rest of
             [] \<Rightarrow> Inl JSONDecodeError
           | d # r \<Rightarrow>
               if d = 93 then Inr (PList (acc @ [v]), r)
               else if d = 44 then parse_array n pf (acc @ [v]) (skip_ws r)
               else Inl JSONDecodeError))"
| "parse_object 0 pf acc s = Inl RecursionError"
| "parse_object (Suc n) pf acc [] = Inl JSONDecodeError"
| "parse_object (Suc n) pf acc (q # cs) =
     (if q \<noteq> 34 then Inl JSONDecodeError
      else
        (case scanstring cs of
           Inl e \<Rightarrow> Inl e
         | Inr (key, r1) \<Rightarrow>
             (case skip_ws r1 of
                [] \<Rightarrow> Inl JSONDecodeError
              | colon # r2 \<Rightarrow>
                  if colon \<noteq> 58 then Inl JSONDecodeError
                  else
                    (case scan_once n pf (skip_ws r2) of
                       Inl e \<Rightarrow> Inl e
                     | Inr (v, r3) \<Rightarrow>
                         (case skip_ws r3 of
                            [] \<Rightarrow> Inl JSONDecodeError
                          | d # r4 \<Rightarrow>
                              if d = 125 then Inr (PDict (dict_setitem acc (KStr key) v), r4)
                              else if d = 44
                                then parse_object n pf (dict_setitem acc (KStr key) v) (skip_ws r4)
                              else Inl JSONDecodeError)))))"

text \<open>
  \<open>json.loads(s)\<close> for a \<open>str\<close>: a byte order mark at the start is refused; white space
  may surround the value; anything else behind it is "Extra data".
\<close>

definition json_loads :: "(pystr \<Rightarrow> 'f) \<Rightarrow> pystr \<Rightarrow> py_error + 'f pyval" where
  "json_loads pf s =
     (if prefix [65279] s then Inl JSONDecodeError
      else
        (case scan_once (2 * length s + 2) pf (skip_ws s) of
           Inl e \<Rightarrow> Inl e
         | Inr (v, rest) \<Rightarrow> if skip_ws rest = [] then Inr v else Inl JSONDecodeError))"

section \<open>Bytes, UTF-8 and base64\<close>

type_synonym byte = "8 word"

text \<open>
  The \<open>utf-8\<close> codec in strict mode. A surrogate code point cannot be encoded; the decoder
  refuses overlong forms, surrogates and values beyond U+10FFFF.
\<close>

definition utf8_encode_char :: "codepoint \<Rightarrow> byte list option" where
  "utf8_encode_char c =
     (if c < 128 then Some [of_nat c]
      else if c < 2048 then Some [of_nat (192 + c div 64), of_nat (128 + c mod 64)]
      else if 55296 \<le> c \<and> c \<le> 57343 then None
      else if c < 65536 then
        Some [of_nat (224 + c div 4096), of_nat (128 + c div 64 mod 64), of_nat (128 + c mod 64)]
      else if c < 1114112 then
        Some [of_nat (240 + c div 262144), of_nat (128 + c div 4096 mod 64),
              of_nat (128 + c div 64 mod 64), of_nat (128 + c mod 64)]
      else None)"

fun utf8_encode :: "pystr \<Rightarrow> byte list option" where
  "utf8_encode [] = Some []"
| "utf8_encode (c # cs) =
     (case utf8_encode_char c of
        None \<Rightarrow> None
      | Some bs \<Rightarrow> (case utf8_encode cs of None \<Rightarrow> None | Some rest \<Rightarrow> Some (bs @ rest)))"

definition is_cont :: "byte \<Rightarrow> bool" where
  "is_cont b \<longleftrightarrow> 128 \<le> unat b \<and> unat b \<le> 191"

definition cons_ok :: "'a \<Rightarrow> 'e + 'a list \<Rightarrow> 'e + 'a list" where
  "cons_ok c r = (case r of Inl e \<Rightarrow> Inl e | Inr s \<Rightarrow> Inr (c # s))"

fun utf8_decode :: "byte list \<Rightarrow> py_error + pystr" where
  "utf8_decode [] = Inr []"
| "utf8_decode (b # bs) =
     (if unat b < 128 then cons_ok (unat b) (utf8_decode bs)
      else if 194 \<le> unat b \<and> unat b \<le> 223 then
        (case bs of
           c1 # r \<Rightarrow>
             if is_cont c1
             then cons_ok ((unat b - 192) * 64 + (unat c1 - 128)) (utf8_decode r)
             else Inl UnicodeDecodeError
         | _ \<Rightarrow> Inl UnicodeDecodeError)
      else if 224 \<le> unat b \<and> unat b \<le> 239 then
        (case bs of
           c1 # c2 # r \<Rightarrow>
             if is_cont c1 \<and> is_cont c2 \<and> (unat b = 224 \<longrightarrow> 160 \<le> unat c1) \<and>
                (unat b = 237 \<longrightarrow> unat c1 \<le> 159)
             then cons_ok ((unat b - 224) * 4096 + (unat c1 - 128) * 64 + (unat c2 - 128))
                    (utf8_decode r)
             else Inl UnicodeDecodeError
         | _ \<Rightarrow> Inl UnicodeDecodeError)
      else if 240 \<le> unat b \<and> unat b \<le> 244 then
        (case bs of
           c1 # c2 # c3 # r \<Rightarrow>
             if is_cont c1 \<and> is_cont c2 \<and> is_cont c3 \<and> (unat b = 240 \<longrightarrow> 144 \<le> unat c1) \<and>
                (unat b = 244 \<longrightarrow> unat c1 \<le> 143)
             then cons_ok ((unat b - 240) * 262144 + (unat c1 - 128) * 4096 +
                           (unat c2 - 128) * 64 + (unat c3 - 128))
                    (utf8_decode r)
             else Inl UnicodeDecodeError
         | _ \<Rightarrow> Inl UnicodeDecodeError)
      else Inl UnicodeDecodeError)"

text \<open>
  \<open>base64.b64encode\<close>: three bytes become four characters of the standard alphabet; a
  last group of one or two bytes is padded with \<open>=\<close>.
\<close>

definition b64char :: "nat \<Rightarrow> byte" where
  "b64char i =
     (if i < 26 then of_nat (65 + i)
      else if i < 52 then of_nat (71 + i)
      else if i < 62 then of_nat (i - 4)
      else if i = 62 then 43
      else 47)"

fun b64encode :: "byte list \<Rightarrow> byte list" where
  "b64encode [] = []"
| "b64encode [a] =
     [b64char (unat a div 4), b64char (unat a mod 4 * 16), 61, 61]"
| "b64encode [a, b] =
     [b64char (unat a div 4), b64char (unat a mod 4 * 16 + unat b div 16),
      b64char (unat b mod 16 * 4), 61]"
| "b64encode (a # b # c # rest) =
     [b64char (unat a div 4), b64char (unat a mod 4 * 16 + unat b div 16),
      b64char (unat b mod 16 * 4 + unat c div 64), b64char (unat c mod 64)] @ b64encode rest"

section \<open>The request sent to the hosted model\<close>

datatype source_block = Base64Source (media_type: pystr) (data: pystr)

datatype content_block = TextContent pystr | ImageContent source_block

record message =
  role :: pystr
  content :: "content_block list"

record request =
  model :: pystr
  max_tokens :: nat
  system :: pystr
  messages :: "message list"

definition system_prompt :: pystr where
  "system_prompt =
     [10] @ str_of ''        Du bist ein didaktischer KI-Assistent f'' @ [252] @
     str_of ''r Hochschullehre.'' @ [10, 10] @
     str_of ''        Deine Aufgabe:'' @ [10] @
     str_of ''        - Erkenne Inhalte auf einem Vorlesungs-Whiteboard'' @ [10] @
     str_of ''        - Identifiziere Themen, Text, mathematische Formeln und Diagramme'' @ [10] @
     str_of ''        - Strukturiere alles logisch und lernfreundlich'' @ [10] @
     str_of ''        - Antworte ausschlie'' @ [223] @ str_of ''lich mit validem JSON'' @ [10] @
     str_of ''        ''"

definition ziel_schema :: "'f pyval" where
  "ziel_schema =
     PDict [
       (KStr (str_of ''topic''), PStr (str_of ''string'')),
       (KStr (str_of ''sections''),
        PList [PDict [
          (KStr (str_of ''title''), PStr (str_of ''string'')),
          (KStr (str_of ''content_type''), PStr (str_of ''text | formula | diagram'')),
          (KStr (str_of ''content''), PStr (str_of ''string'')),
          (KStr (str_of ''key_points''), PList [PStr (str_of ''string'')])]]),
       (KStr (str_of ''flashcards''),
        PList [PDict [
          (KStr (str_of ''question''), PStr (str_of ''string'')),
          (KStr (str_of ''answer''), PStr (str_of ''string''))]]),
       (KStr (str_of ''summary''), PStr (str_of ''string''))]"

text \<open>
  The arguments of \<open>self.client.messages.create\<close>. The schema is printed by
  \<open>json.dumps(ziel_schema, indent=4)\<close>, whose \<open>ensure_ascii\<close> is true by default.
\<close>

definition build_request :: "('f \<Rightarrow> pystr) \<Rightarrow> pystr \<Rightarrow> request" where
  "build_request fl bild_base64 =
     \<lparr> model = str_of ''claude-3-5-sonnet-20241022'',
       max_tokens = 3000,
       system = system_prompt,
       messages =
         [\<lparr> role = str_of ''user'',
            content =
              [TextContent
                 (str_of ''Analysiere dieses Whiteboard-Foto aus einer Vorlesung '' @
                  str_of ''und strukturiere den Inhalt gem'' @ [228, 223] @
                  str_of '' folgendem JSON-Schema:'' @ [10, 10] @
                  json_dumps True fl (ziel_schema :: 'f pyval)),
               ImageContent
                 (Base64Source (str_of ''image/jpeg'') bild_base64)] \<rparr>] \<rparr>"



section \<open>The world of the program\<close>

text \<open>
  What the program reads and changes: the regular files by path, the directories, the
  reading of the local clock, the client library (whether \<open>Anthropic()\<close> can be
  constructed, and what the hosted model answers to a request), and the interpreter's two
  functions on floats. \<open>calls\<close> records the invocations of the program's three worker
  functions in the order in which they were entered.
\<close>

record datetime =
  year :: nat
  month :: nat
  day :: nat
  hour :: nat
  minute :: nat
  second :: nat
  microsecond :: nat

datatype response_block = TextBlock pystr | OtherBlock

datatype 'f call =
    Call_bild_als_base64 "pystr option"
  | Call_analysiere_whiteboard pystr
  | Call_json_speichern "'f pyval"

record 'f world =
  files :: "pystr \<rightharpoonup> byte list"
  dirs :: "pystr set"
  now :: datetime
  client_init :: "py_error option"
  api :: "request \<Rightarrow> py_error + response_block list"
  parse_float :: "pystr \<Rightarrow> 'f"
  float_repr :: "'f \<Rightarrow> pystr"
  calls :: "'f call list"

subsection \<open>\<open>bild_als_base64\<close>\<close>

text \<open>
  \<open>open(pfad, "rb")\<close>, \<open>f.read()\<close>, \<open>base64.b64encode(...).decode("utf-8")\<close>. The
  upload widget hands over \<open>None\<close> when no image was chosen.
\<close>

definition bild_als_base64 :: "'f world \<Rightarrow> pystr option \<Rightarrow> (py_error + pystr) \<times> 'f world" where
  "bild_als_base64 w pfad =
     (let w1 = w\<lparr>calls := calls w @ [Call_bild_als_base64 pfad]\<rparr>
      in case pfad of
           None \<Rightarrow> (Inl TypeError, w1)
         | Some p \<Rightarrow>
             if p \<in> dirs w then (Inl IsADirectoryError, w1)
             else
               (case files w p of
                  None \<Rightarrow> (Inl FileNotFoundError, w1)
                | Some bs \<Rightarrow> (utf8_decode (b64encode bs), w1)))"

subsection \<open>\<open>zeitstempel\<close>\<close>

text \<open>
  \<open>strftime("%Y%m%d_%H%M%S")\<close> of the clock reading: the year in four digits, the other
  fields in two, each padded with zeros.
\<close>

definition zfill :: "nat \<Rightarrow> nat \<Rightarrow> pystr" where
  "zfill width n = replicate (width - length (digits_of n)) 48 @ digits_of n"

definition zeitstempel :: "datetime \<Rightarrow> pystr" where
  "zeitstempel d =
     zfill 4 (year d) @ zfill 2 (month d) @ zfill 2 (day d) @ [95] @
     zfill 2 (hour d) @ zfill 2 (minute d) @ zfill 2 (second d)"

subsection \<open>\<open>json_speichern\<close>\<close>

text \<open>
  \<open>json.dump\<close> writes the chunks of the encoder to the text file one by one; a chunk
  that cannot be encoded raises and leaves the chunks before it in the file.
\<close>

fun write_chunks :: "byte list \<Rightarrow> pystr list \<Rightarrow> py_error option \<times> byte list" where
  "write_chunks written [] = (None, written)"
| "write_chunks written (c # cs) =
     (case utf8_encode c of
        None \<Rightarrow> (Some UnicodeEncodeError, written)
      | Some bs \<Rightarrow> write_chunks (written @ bs) cs)"

definition out_dir :: pystr where
  "out_dir = str_of ''whiteboard_exports''"

definition export_path :: "datetime \<Rightarrow> pystr" where
  "export_path d = out_dir @ [47] @ str_of ''lecture_notes_'' @ zeitstempel d @ str_of ''.json''"

text \<open>
  \<open>out_dir.mkdir(exist_ok=True)\<close> raises if the name is taken by a regular file;
  \<open>open(pfad, "w")\<close> raises if the path is a directory and else creates or truncates
  the file.
\<close>

definition json_speichern :: "'f world \<Rightarrow> 'f pyval \<Rightarrow> (py_error + pystr) \<times> 'f world" where
  "json_speichern w daten =
     (let w1 = w\<lparr>calls := calls w @ [Call_json_speichern daten]\<rparr>
      in if out_dir \<in> dom (files w1) then (Inl FileExistsError, w1)
         else
           (let w2 = w1\<lparr>dirs := insert out_dir (dirs w1)\<rparr>;
                pfad = export_path (now w2)
            in if pfad \<in> dirs w2 then (Inl IsADirectoryError, w2)
               else
                 (case write_chunks [] (iterencode False (float_repr w2) 0 daten) of
                    (err, written) \<Rightarrow>
                      (let w3 = w2\<lparr>files := (files w2)(pfad \<mapsto> written)\<rparr>
                       in case err of
                            Some e \<Rightarrow> (Inl e, w3)
                          | None \<Rightarrow> (Inr pfad, w3)))))"

subsection \<open>\<open>WhiteboardAssistent.analysiere_whiteboard\<close>\<close>

definition analysiere_whiteboard :: "'f world \<Rightarrow> pystr \<Rightarrow> (py_error + 'f pyval) \<times> 'f world" where
  "analysiere_whiteboard w bild_base64 =
     (let w1 = w\<lparr>calls := calls w @ [Call_analysiere_whiteboard bild_base64]\<rparr>
      in case api w (build_request (float_repr w) bild_base64) of
           Inl e \<Rightarrow> (Inl e, w1)
         | Inr message_content \<Rightarrow>
             (case message_content of
                [] \<Rightarrow> (Inl IndexError, w1)
              | OtherBlock # _ \<Rightarrow> (Inl AttributeError, w1)
              | TextBlock rohtext # _ \<Rightarrow>
                  (json_loads (parse_float w) (bereinigt rohtext), w1)))"

subsection \<open>\<open>verarbeite_whiteboard\<close>\<close>

definition verarbeite_whiteboard ::
  "'f world \<Rightarrow> pystr option \<Rightarrow> (py_error + 'f pyval \<times> pystr) \<times> 'f world" where
  "verarbeite_whiteboard w bild_datei =
     (case client_init w of
        Some e \<Rightarrow> (Inl e, w)
      | None \<Rightarrow>
          (case bild_als_base64 w bild_datei of
             (Inl e, w1) \<Rightarrow> (Inl e, w1)
           | (Inr b64, w1) \<Rightarrow>
               (case analysiere_whiteboard w1 b64 of
                  (Inl e, w2) \<Rightarrow> (Inl e, w2)
                | (Inr ergebnis, w2) \<Rightarrow>
                    (case json_speichern w2 ergebnis of
                       (Inl e, w3) \<Rightarrow> (Inl e, w3)
                     | (Inr speicherort, w3) \<Rightarrow>
                         (Inr (ergebnis, str_of ''Gespeichert unter: '' @ speicherort), w3)))))"

section \<open>Replies of the model used as examples\<close>

definition quoted :: "pystr \<Rightarrow> pystr" where
  "quoted s = 34 # s @ [34]"

text \<open>
  The compact JSON text of lecture notes with a topic and a summary and no sections and
  flashcards, as a model might reply it, and the value it denotes.
\<close>

definition notes_text :: "pystr \<Rightarrow> pystr \<Rightarrow> pystr" where
  "notes_text t s =
     [123] @ quoted (str_of ''topic'') @ [58] @ quoted t @ [44] @
     quoted (str_of ''sections'') @ str_of '':[],'' @
     quoted (str_of ''flashcards'') @ str_of '':[],'' @
     quoted (str_of ''summary'') @ [58] @ quoted s @ [125]"

definition lecture_notes :: "pystr \<Rightarrow> pystr \<Rightarrow> 'f pyval" where
  "lecture_notes t s =
     PDict [(KStr (str_of ''topic''), PStr t), (KStr (str_of ''sections''), PList []),
            (KStr (str_of ''flashcards''), PList []), (KStr (str_of ''summary''), PStr s)]"

definition reply_fenced :: pystr where
  "reply_fenced =
     str_of ''```json'' @ [10] @ notes_text (str_of ''X'') (str_of ''Y'') @ [10] @ str_of ''```''"

definition reply_unfenced :: pystr where
  "reply_unfenced = notes_text (str_of ''A'') (str_of ''B'')"


section \<open>Properties\<close>


subsection \<open>Evaluating the decoder on a given text\<close>

lemmas scan_num =
  scan_once.simps(2,3)[of "pred_numeral k", folded numeral_eq_Suc]
  parse_array.simps(2)[of "pred_numeral k", folded numeral_eq_Suc]
  parse_object.simps(2,3)[of "pred_numeral k", folded numeral_eq_Suc] for k

lemmas eval_congs =
  list.case_cong_weak sum.case_cong_weak prod.case_cong_weak option.case_cong_weak

lemmas loads_eval =
  json_loads_def notes_text_def lecture_notes_def quoted_def str_of_def skip_ws_def
  is_json_ws_def scan_num cons_result_def match_number_def num_sign_def num_int_part_def
  num_frac_part_def num_exp_part_def

lemma bereinigt_fenced: "bereinigt reply_fenced = notes_text (str_of ''X'') (str_of ''Y'')"
  by code_simp

lemma bereinigt_unfenced: "bereinigt reply_unfenced = reply_unfenced"
  by code_simp


lemma loads_XY:
  "json_loads pf (notes_text (str_of ''X'') (str_of ''Y'')) =
   Inr (lecture_notes (str_of ''X'') (str_of ''Y''))"
  by (simp add: loads_eval cong: eval_congs)

lemma loads_AB:
  "json_loads pf reply_unfenced = Inr (lecture_notes (str_of ''A'') (str_of ''B''))"
  by (simp add: reply_unfenced_def loads_eval cong: eval_congs)



text \<open>
  C3. When the model replies the lecture notes with topic X and summary Y between a
  leading \<open>```json\<close> fence and a trailing \<open>```\<close> fence, each on a line of its own,
  \<open>analysiere_whiteboard\<close> returns the mapping of these notes; when it replies the notes
  with topic A and summary B without fences, it returns them as they parse.
\<close>

theorem fenced_and_unfenced_reply:
  "fst (analysiere_whiteboard (w\<lparr>api := \<lambda>r. Inr [TextBlock reply_fenced]\<rparr>) b) =
     Inr (lecture_notes (str_of ''X'') (str_of ''Y'')) \<and>
   fst (analysiere_whiteboard (w\<lparr>api := \<lambda>r. Inr [TextBlock reply_unfenced]\<rparr>) b) =
     Inr (lecture_notes (str_of ''A'') (str_of ''B'')) \<and>
   json_loads (parse_float w) reply_unfenced =
     Inr (lecture_notes (str_of ''A'') (str_of ''B''))"
  by (simp add: analysiere_whiteboard_def bereinigt_fenced bereinigt_unfenced loads_XY loads_AB)

subsection \<open>What the cleaning step deletes\<close>













end
